theory Spec2Isabelle
  imports Complex_Main
begin

section \<open>Cubic Bezier easing (packages/common-widgets/utils/bezier-easing.ts)\<close>

text \<open>
  The module builds an easing function from the two inner control points of a cubic
  Bezier curve. Numbers are modelled as exact reals: additions, multiplications and
  divisions are those of the real field. The sample array is a \<open>Float32Array\<close>
  where the platform has one, and storing a number there rounds it to single
  precision; that rounding is part of the model. The range check of the constructor
  is the one place where the source depends on values that are not real numbers, so
  it is modelled on JavaScript numbers with \<open>NaN\<close> and the two infinities.
\<close>

subsection \<open>JavaScript numbers and their comparisons\<close>

datatype jsnum = NaN | NegInfinity | PosInfinity | Num real

text \<open>\<open>a <= b\<close>: false as soon as one side is \<open>NaN\<close>.\<close>

fun js_le :: "jsnum \<Rightarrow> jsnum \<Rightarrow> bool" where
  "js_le NaN _ = False"
| "js_le _ NaN = False"
| "js_le NegInfinity _ = True"
| "js_le _ PosInfinity = True"
| "js_le PosInfinity _ = False"
| "js_le _ NegInfinity = False"
| "js_le (Num a) (Num b) = (a \<le> b)"

text \<open>\<open>a >= b\<close>.\<close>

definition js_ge :: "jsnum \<Rightarrow> jsnum \<Rightarrow> bool" where
  "js_ge a b = js_le b a"

subsection \<open>Constants\<close>

definition NEWTON_ITERATIONS :: nat where
  "NEWTON_ITERATIONS = 4"

definition NEWTON_MIN_SLOPE :: real where
  "NEWTON_MIN_SLOPE = 1 / 1000"

definition SUBDIVISION_PRECISION :: real where
  "SUBDIVISION_PRECISION = 1 / 10000000"

definition SUBDIVISION_MAX_ITERATIONS :: nat where
  "SUBDIVISION_MAX_ITERATIONS = 10"

definition kSplineTableSize :: nat where
  "kSplineTableSize = 11"

definition kSampleStepSize :: real where
  "kSampleStepSize = 1 / (real kSplineTableSize - 1)"

subsection \<open>The curve and its slope\<close>

definition A :: "real \<Rightarrow> real \<Rightarrow> real" where
  "A aA1 aA2 = 1 - 3 * aA2 + 3 * aA1"

definition B :: "real \<Rightarrow> real \<Rightarrow> real" where
  "B aA1 aA2 = 3 * aA2 - 6 * aA1"

definition C :: "real \<Rightarrow> real" where
  "C aA1 = 3 * aA1"

definition calcBezier :: "real \<Rightarrow> real \<Rightarrow> real \<Rightarrow> real" where
  "calcBezier aT aA1 aA2 = ((A aA1 aA2 * aT + B aA1 aA2) * aT + C aA1) * aT"

definition getSlope :: "real \<Rightarrow> real \<Rightarrow> real \<Rightarrow> real" where
  "getSlope aT aA1 aA2 = 3 * A aA1 aA2 * aT * aT + 2 * B aA1 aA2 * aT + C aA1"

subsection \<open>Bisection\<close>

text \<open>
  The \<open>do ... while\<close> loop of \<open>binarySubdivide\<close>; \<open>i\<close> is the loop counter, which
  the condition increments only when the residual still exceeds the precision.
\<close>

function binarySubdivide_loop ::
  "real \<Rightarrow> real \<Rightarrow> real \<Rightarrow> real \<Rightarrow> real \<Rightarrow> nat \<Rightarrow> real" where
  "binarySubdivide_loop aX aA aB mX1 mX2 i =
     (let currentT = aA + (aB - aA) / 2;
          currentX = calcBezier currentT mX1 mX2 - aX
      in if \<bar>currentX\<bar> > SUBDIVISION_PRECISION \<and> i + 1 < SUBDIVISION_MAX_ITERATIONS
         then binarySubdivide_loop aX
                (if currentX > 0 then aA else currentT)
                (if currentX > 0 then currentT else aB) mX1 mX2 (i + 1)
         else currentT)"
  by pat_completeness auto
termination
  by (relation "measure (\<lambda>(aX, aA, aB, mX1, mX2, i). SUBDIVISION_MAX_ITERATIONS - i)")
     auto

declare binarySubdivide_loop.simps [simp del]

definition binarySubdivide :: "real \<Rightarrow> real \<Rightarrow> real \<Rightarrow> real \<Rightarrow> real \<Rightarrow> real" where
  "binarySubdivide aX aA aB mX1 mX2 = binarySubdivide_loop aX aA aB mX1 mX2 0"

text \<open>
  The same loop, recording each execution of its body as the interval it started
  from and the midpoint it computed: \<open>(aA, aB, currentT)\<close>.
\<close>

function binarySubdivide_trace ::
  "real \<Rightarrow> real \<Rightarrow> real \<Rightarrow> real \<Rightarrow> real \<Rightarrow> nat \<Rightarrow> (real \<times> real \<times> real) list" where
  "binarySubdivide_trace aX aA aB mX1 mX2 i =
     (let currentT = aA + (aB - aA) / 2;
          currentX = calcBezier currentT mX1 mX2 - aX
      in (aA, aB, currentT) #
         (if \<bar>currentX\<bar> > SUBDIVISION_PRECISION \<and> i + 1 < SUBDIVISION_MAX_ITERATIONS
          then binarySubdivide_trace aX
                 (if currentX > 0 then aA else currentT)
                 (if currentX > 0 then currentT else aB) mX1 mX2 (i + 1)
          else []))"
  by pat_completeness auto
termination
  by (relation "measure (\<lambda>(aX, aA, aB, mX1, mX2, i). SUBDIVISION_MAX_ITERATIONS - i)")
     auto

declare binarySubdivide_trace.simps [simp del]

subsection \<open>Newton-Raphson\<close>

text \<open>The \<open>for\<close> loop of \<open>newtonRaphsonIterate\<close>, with its counter \<open>i\<close>.\<close>

function newtonRaphsonIterate_loop ::
  "real \<Rightarrow> real \<Rightarrow> real \<Rightarrow> real \<Rightarrow> nat \<Rightarrow> real" where
  "newtonRaphsonIterate_loop aX aGuessT mX1 mX2 i =
     (if i < NEWTON_ITERATIONS then
        (let currentSlope = getSlope aGuessT mX1 mX2
         in if currentSlope = 0 then aGuessT
            else (let currentX = calcBezier aGuessT mX1 mX2 - aX
                  in newtonRaphsonIterate_loop aX (aGuessT - currentX / currentSlope)
                       mX1 mX2 (i + 1)))
      else aGuessT)"
  by pat_completeness auto
termination
  by (relation "measure (\<lambda>(aX, aGuessT, mX1, mX2, i). NEWTON_ITERATIONS - i)") auto

declare newtonRaphsonIterate_loop.simps [simp del]

definition newtonRaphsonIterate :: "real \<Rightarrow> real \<Rightarrow> real \<Rightarrow> real \<Rightarrow> real" where
  "newtonRaphsonIterate aX aGuessT mX1 mX2 = newtonRaphsonIterate_loop aX aGuessT mX1 mX2 0"

subsection \<open>Storing into a \<open>Float32Array\<close>\<close>

text \<open>
  An element of a \<open>Float32Array\<close> is a binary32 number: 24 significant bits and an
  exponent between \<open>-126\<close> and \<open>127\<close>. A store rounds to the nearest such number,
  ties to the even significand. \<open>f32_exponent\<close> finds the binade of the value (the
  lowest one for subnormal values), by a search over the 254 exponents; the spacing of
  the binary32 numbers there is \<open>2 ^ (exponent - 23)\<close>. Values of magnitude \<open>2 ^ 128\<close>
  and above, which a store turns into an infinity, are outside this model; the samples
  of a curve never reach them.
\<close>

fun f32_exponent_from :: "nat \<Rightarrow> int \<Rightarrow> real \<Rightarrow> int" where
  "f32_exponent_from 0 e x = e"
| "f32_exponent_from (Suc n) e x =
     (if x < 2 powi (e + 1) then e else f32_exponent_from n (e + 1) x)"

definition f32_exponent :: "real \<Rightarrow> int" where
  "f32_exponent x = f32_exponent_from 253 (- 126) \<bar>x\<bar>"

definition round_ties_even :: "real \<Rightarrow> int" where
  "round_ties_even r =
     (let n = \<lfloor>r\<rfloor>; d = r - of_int n
      in if d < 1 / 2 then n else if 1 / 2 < d then n + 1
         else if even n then n else n + 1)"

definition fround :: "real \<Rightarrow> real" where
  "fround x =
     (let ulp = 2 powi (f32_exponent x - 23)
      in of_int (round_ties_even (x / ulp)) * ulp)"

subsection \<open>The sample table\<close>

text \<open>
  \<open>float32ArraySupported\<close> is fixed by the platform when the module is loaded, so it
  is a parameter here. The loop fills \<open>sampleValues\<close>, an array of
  \<open>kSplineTableSize\<close> numbers: a \<open>Float32Array\<close>, whose stores round, when there is
  one, and an ordinary array otherwise.
\<close>

function fill_samples :: "bool \<Rightarrow> real \<Rightarrow> real \<Rightarrow> nat \<Rightarrow> real list \<Rightarrow> real list" where
  "fill_samples float32ArraySupported mX1 mX2 i sampleValues =
     (if i < kSplineTableSize
      then fill_samples float32ArraySupported mX1 mX2 (i + 1)
             (sampleValues[i :=
                (if float32ArraySupported
                 then fround (calcBezier (real i * kSampleStepSize) mX1 mX2)
                 else calcBezier (real i * kSampleStepSize) mX1 mX2)])
      else sampleValues)"
  by pat_completeness auto
termination
  by (relation "measure (\<lambda>(float32ArraySupported, mX1, mX2, i, sampleValues).
        kSplineTableSize - i)") auto

declare fill_samples.simps [simp del]

definition make_samples :: "bool \<Rightarrow> real \<Rightarrow> real \<Rightarrow> real list" where
  "make_samples float32ArraySupported mX1 mX2 =
     fill_samples float32ArraySupported mX1 mX2 0 (replicate kSplineTableSize 0)"

subsection \<open>The root finder\<close>

text \<open>
  The scanning loop of \<open>getTForX\<close>; it returns \<open>intervalStart\<close> and
  \<open>currentSample\<close> as they are when the loop ends. An array read past the end
  gives \<open>undefined\<close>, which compares false.
\<close>

function scan_samples :: "real list \<Rightarrow> real \<Rightarrow> real \<Rightarrow> nat \<Rightarrow> real \<times> nat" where
  "scan_samples sampleValues aX intervalStart currentSample =
     (if currentSample \<noteq> kSplineTableSize - 1
         \<and> currentSample < length sampleValues
         \<and> sampleValues ! currentSample \<le> aX
      then scan_samples sampleValues aX (intervalStart + kSampleStepSize) (currentSample + 1)
      else (intervalStart, currentSample))"
  by pat_completeness auto
termination
  by (relation "measure (\<lambda>(sampleValues, aX, intervalStart, currentSample).
        length sampleValues - currentSample)") auto

declare scan_samples.simps [simp del]

definition getTForX :: "real list \<Rightarrow> real \<Rightarrow> real \<Rightarrow> real \<Rightarrow> real" where
  "getTForX sampleValues mX1 mX2 aX =
     (let (intervalStart, currentSample) = scan_samples sampleValues aX 0 1;
          currentSample = currentSample - 1;
          dist = (aX - sampleValues ! currentSample) /
                 (sampleValues ! (currentSample + 1) - sampleValues ! currentSample);
          guessForT = intervalStart + dist * kSampleStepSize;
          initialSlope = getSlope guessForT mX1 mX2
      in if initialSlope \<ge> NEWTON_MIN_SLOPE
         then newtonRaphsonIterate aX guessForT mX1 mX2
         else if initialSlope = 0 then guessForT
         else binarySubdivide aX intervalStart (intervalStart + kSampleStepSize) mX1 mX2)"

subsection \<open>The constructor and the functions it returns\<close>

datatype error = InvalidArgument

text \<open>
  What \<open>bezier\<close> returns: the function \<open>LinearEasing\<close>, or the closure
  \<open>BezierEasing\<close> over \<open>mX1\<close>, \<open>mY1\<close>, \<open>mX2\<close>, \<open>mY2\<close> and \<open>sampleValues\<close>.
\<close>

datatype easing = LinearEasing | BezierEasing real real real real "real list"

text \<open>The range check at the head of \<open>bezier\<close>, which throws.\<close>

definition check_x_range :: "jsnum \<Rightarrow> jsnum \<Rightarrow> error option" where
  "check_x_range mX1 mX2 =
     (if \<not> (js_ge mX1 (Num 0) \<and> js_le mX1 (Num 1) \<and> js_ge mX2 (Num 0) \<and> js_le mX2 (Num 1))
      then Some InvalidArgument else None)"

definition bezier :: "bool \<Rightarrow> real \<Rightarrow> real \<Rightarrow> real \<Rightarrow> real \<Rightarrow> error + easing" where
  "bezier float32ArraySupported mX1 mY1 mX2 mY2 =
     (case check_x_range (Num mX1) (Num mX2) of
        Some e \<Rightarrow> Inl e
      | None \<Rightarrow>
          if mX1 = mY1 \<and> mX2 = mY2 then Inr LinearEasing
          else Inr (BezierEasing mX1 mY1 mX2 mY2
                      (make_samples float32ArraySupported mX1 mX2)))"

text \<open>Calling the returned function on \<open>x\<close>.\<close>

fun evaluate :: "easing \<Rightarrow> real \<Rightarrow> real" where
  "evaluate LinearEasing x = x"
| "evaluate (BezierEasing mX1 mY1 mX2 mY2 sampleValues) x =
     (if x = 0 \<or> x = 1 then x
      else calcBezier (getTForX sampleValues mX1 mX2 x) mY1 mY2)"

subsection \<open>Notions used in the statements\<close>

text \<open>
  The values of \<open>intervalStart\<close>, \<open>currentSample\<close> (after its decrement) and
  \<open>guessForT\<close> inside \<open>getTForX\<close>, under names of their own.
\<close>

definition getTForX_intervalStart :: "real list \<Rightarrow> real \<Rightarrow> real" where
  "getTForX_intervalStart sampleValues aX = fst (scan_samples sampleValues aX 0 1)"

definition getTForX_currentSample :: "real list \<Rightarrow> real \<Rightarrow> nat" where
  "getTForX_currentSample sampleValues aX = snd (scan_samples sampleValues aX 0 1) - 1"

definition getTForX_guessForT :: "real list \<Rightarrow> real \<Rightarrow> real" where
  "getTForX_guessForT sampleValues aX =
     (let intervalStart = getTForX_intervalStart sampleValues aX;
          currentSample = getTForX_currentSample sampleValues aX;
          dist = (aX - sampleValues ! currentSample) /
                 (sampleValues ! (currentSample + 1) - sampleValues ! currentSample)
      in intervalStart + dist * kSampleStepSize)"

text \<open>One Newton-Raphson update, \<open>t - (x(t) - aX) / slope(t)\<close>.\<close>

definition newton_update :: "real \<Rightarrow> real \<Rightarrow> real \<Rightarrow> real \<Rightarrow> real" where
  "newton_update aX mX1 mX2 t = t - (calcBezier t mX1 mX2 - aX) / getSlope t mX1 mX2"



section \<open>Properties\<close>

lemmas consts_defs = NEWTON_ITERATIONS_def NEWTON_MIN_SLOPE_def SUBDIVISION_PRECISION_def
  SUBDIVISION_MAX_ITERATIONS_def kSplineTableSize_def kSampleStepSize_def

lemmas curve_defs = A_def B_def C_def calcBezier_def getSlope_def

subsection \<open>Construction\<close>

lemma check_x_range_Num:
  "check_x_range (Num a) (Num b) =
     (if 0 \<le> a \<and> a \<le> 1 \<and> 0 \<le> b \<and> b \<le> 1 then None else Some InvalidArgument)"
  by (simp add: check_x_range_def js_ge_def)

lemma bezier_unfold:
  "bezier float32ArraySupported mX1 mY1 mX2 mY2 =
     (if \<not> (0 \<le> mX1 \<and> mX1 \<le> 1 \<and> 0 \<le> mX2 \<and> mX2 \<le> 1) then Inl InvalidArgument
      else if mX1 = mY1 \<and> mX2 = mY2 then Inr LinearEasing
      else Inr (BezierEasing mX1 mY1 mX2 mY2 (make_samples float32ArraySupported mX1 mX2)))"
  by (simp add: bezier_def check_x_range_Num)

text \<open>
  C1. For all real arguments, and on either kind of platform, \<open>bezier\<close> fails with
  \<open>InvalidArgument\<close> exactly when \<open>mX1\<close> or \<open>mX2\<close> is outside \<open>[0, 1]\<close>, and returns an
  easing function exactly when both are inside; \<open>mY1\<close> and \<open>mY2\<close> do not occur in the
  condition. The returned function has no failing branch: \<open>evaluate\<close> yields a number
  for every input.
\<close>

theorem bezier_rejects_iff:
  "(bezier float32ArraySupported mX1 mY1 mX2 mY2 = Inl InvalidArgument)
     = (\<not> (0 \<le> mX1 \<and> mX1 \<le> 1 \<and> 0 \<le> mX2 \<and> mX2 \<le> 1))
   \<and> ((\<exists>f. bezier float32ArraySupported mX1 mY1 mX2 mY2 = Inr f)
     = (0 \<le> mX1 \<and> mX1 \<le> 1 \<and> 0 \<le> mX2 \<and> mX2 \<le> 1))"
  by (simp add: bezier_unfold)

text \<open>
  C2. Every function that \<open>bezier\<close> returns maps 0 to 0 and 1 to 1: the two inputs
  are returned as they are, before the root finder is reached.
\<close>

theorem evaluate_endpoints:
  "bezier float32ArraySupported mX1 mY1 mX2 mY2 = Inr f \<Longrightarrow>
     evaluate f 0 = 0 \<and> evaluate f 1 = 1"
  by (auto simp add: bezier_unfold split: if_splits)

theorem evaluate_endpoints_witness:
  "bezier True (1/4) (1/10) (1/4) 1
     = Inr (BezierEasing (1/4) (1/10) (1/4) 1 (make_samples True (1/4) (1/4)))
   \<and> evaluate (BezierEasing (1/4) (1/10) (1/4) 1 (make_samples True (1/4) (1/4))) 0 = 0
   \<and> evaluate (BezierEasing (1/4) (1/10) (1/4) 1 (make_samples True (1/4) (1/4))) 1 = 1"
proof -
  have b: "bezier True (1/4) (1/10) (1/4) 1
     = Inr (BezierEasing (1/4) (1/10) (1/4) 1 (make_samples True (1/4) (1/4)))"
    by (simp add: bezier_unfold)
  from evaluate_endpoints [OF b] b show ?thesis by simp
qed

text \<open>
  C3. For valid arguments with \<open>mX1 = mY1\<close> and \<open>mX2 = mY2\<close>, \<open>bezier\<close> returns
  \<open>LinearEasing\<close>, which carries no sample table and never reaches the root finder,
  and \<open>LinearEasing\<close> returns every input unchanged, also outside \<open>[0, 1]\<close>.
\<close>

theorem identity_curve_linear:
  "0 \<le> mX1 \<and> mX1 \<le> 1 \<and> 0 \<le> mX2 \<and> mX2 \<le> 1 \<Longrightarrow> mX1 = mY1 \<and> mX2 = mY2 \<Longrightarrow>
     bezier float32ArraySupported mX1 mY1 mX2 mY2 = Inr LinearEasing
     \<and> (\<forall>x. evaluate LinearEasing x = x)"
  by (simp add: bezier_unfold)

theorem identity_curve_linear_witness:
  "bezier True 0 0 1 1 = Inr LinearEasing \<and> evaluate LinearEasing (-3) = -3
     \<and> evaluate LinearEasing 7 = 7"
proof -
  have v: "0 \<le> (0::real) \<and> (0::real) \<le> 1 \<and> 0 \<le> (1::real) \<and> (1::real) \<le> 1" by simp
  have e: "(0::real) = 0 \<and> (1::real) = 1" by simp
  from identity_curve_linear [OF v e, of True] show ?thesis by simp
qed

text \<open>
  C9. The range check rejects a \<open>NaN\<close> in either x position, whatever the other
  argument is, and lets through exactly the pairs of real numbers in \<open>[0, 1]\<close>: no
  easing function is built from a \<open>NaN\<close> (or infinite) x coordinate.
\<close>

theorem check_x_range_NaN:
  "check_x_range NaN m = Some InvalidArgument
   \<and> check_x_range m NaN = Some InvalidArgument
   \<and> ((check_x_range mX1 mX2 = None)
        = (\<exists>a b. mX1 = Num a \<and> mX2 = Num b \<and> 0 \<le> a \<and> a \<le> 1 \<and> 0 \<le> b \<and> b \<le> 1))"
  by (cases m; cases mX1; cases mX2) (simp_all add: check_x_range_def js_ge_def)


subsection \<open>The x cubic is strictly increasing\<close>

lemma convex_ge:
  fixes c p q w :: real
  assumes "0 \<le> w" "w \<le> 1" "c \<le> p" "c \<le> q"
  shows "c \<le> (1 - w) * p + w * q"
proof -
  from assms have "(1 - w) * c \<le> (1 - w) * p" "w * c \<le> w * q"
    by (simp_all add: mult_left_mono)
  then have "(1 - w) * c + w * c \<le> (1 - w) * p + w * q" by linarith
  then show ?thesis by (simp add: algebra_simps)
qed

text \<open>The divided difference of the cubic between two parameters.\<close>

lemma calcBezier_diff:
  "calcBezier t mX1 mX2 - calcBezier s mX1 mX2 =
     (t - s) * (A mX1 mX2 * (t * t + t * s + s * s) + B mX1 mX2 * (t + s) + C mX1)"
  by (simp add: calcBezier_def algebra_simps)

lemma quot_corner_00:
  fixes s t :: real
  assumes "0 \<le> s" "0 \<le> t"
  shows "(t - s) * (t - s) \<le> t * t + t * s + s * s"
proof -
  from assms have "0 \<le> 3 * (t * s)" by simp
  then show ?thesis by (simp add: algebra_simps)
qed

lemma quot_corner_11:
  fixes s t :: real
  assumes "s \<le> 1" "t \<le> 1"
  shows "(t - s) * (t - s) \<le> (t * t + t * s + s * s) - 3 * (t + s) + 3"
proof -
  from assms have "0 \<le> 3 * ((1 - t) * (1 - s))" by simp
  then show ?thesis by (simp add: algebra_simps)
qed

lemma quot_corner_01:
  fixes s t :: real
  assumes "0 \<le> s" "s \<le> 1" "0 \<le> t" "t \<le> 1"
  shows "(t - s) * (t - s) \<le> - 2 * (t * t + t * s + s * s) + 3 * (t + s)"
proof -
  from assms have "0 \<le> 3 * (t * (1 - t))" "0 \<le> 3 * (s * (1 - s))" by simp_all
  then have "0 \<le> 3 * (t * (1 - t)) + 3 * (s * (1 - s))" by linarith
  then show ?thesis by (simp add: algebra_simps)
qed

lemma quot_corner_10:
  fixes s t :: real
  shows "(t - s) * (t - s) \<le> 4 * (t * t + t * s + s * s) - 6 * (t + s) + 3"
proof -
  have "0 \<le> 3 * ((t + s - 1) * (t + s - 1))" by simp
  then show ?thesis by (simp add: algebra_simps)
qed

lemma quot_ge:
  fixes s t :: real
  assumes v: "0 \<le> mX1" "mX1 \<le> 1" "0 \<le> mX2" "mX2 \<le> 1" and st: "0 \<le> s" "s \<le> 1" "0 \<le> t" "t \<le> 1"
  shows "(t - s) * (t - s)
    \<le> A mX1 mX2 * (t * t + t * s + s * s) + B mX1 mX2 * (t + s) + C mX1"
proof -
  let ?q = "t * t + t * s + s * s"
  let ?d = "(t - s) * (t - s)"
  have lo: "?d \<le> (1 - mX1) * ?q + mX1 * (4 * ?q - 6 * (t + s) + 3)"
    using v(1,2) quot_corner_00 [OF st(1,3)] quot_corner_10 [of t s] by (rule convex_ge)
  have hi: "?d \<le> (1 - mX1) * (- 2 * ?q + 3 * (t + s)) + mX1 * (?q - 3 * (t + s) + 3)"
    using v(1,2) quot_corner_01 [OF st] quot_corner_11 [OF st(2,4)] by (rule convex_ge)
  have "?d \<le> (1 - mX2) * ((1 - mX1) * ?q + mX1 * (4 * ?q - 6 * (t + s) + 3))
          + mX2 * ((1 - mX1) * (- 2 * ?q + 3 * (t + s)) + mX1 * (?q - 3 * (t + s) + 3))"
    using v(3,4) lo hi by (rule convex_ge)
  also have "\<dots> = A mX1 mX2 * ?q + B mX1 mX2 * (t + s) + C mX1"
    by (simp add: A_def B_def C_def algebra_simps)
  finally show ?thesis .
qed

lemma calcBezier_gap:
  assumes "0 \<le> mX1" "mX1 \<le> 1" "0 \<le> mX2" "mX2 \<le> 1" "0 \<le> s" "s \<le> t" "t \<le> 1"
  shows "(t - s) * ((t - s) * (t - s)) \<le> calcBezier t mX1 mX2 - calcBezier s mX1 mX2"
proof -
  have "(t - s) * (t - s)
    \<le> A mX1 mX2 * (t * t + t * s + s * s) + B mX1 mX2 * (t + s) + C mX1"
    using assms by (intro quot_ge) simp_all
  then have "(t - s) * ((t - s) * (t - s))
    \<le> (t - s) * (A mX1 mX2 * (t * t + t * s + s * s) + B mX1 mX2 * (t + s) + C mX1)"
    using assms(6) by (intro mult_left_mono) simp_all
  then show ?thesis by (simp only: calcBezier_diff)
qed

lemma calcBezier_strict_mono:
  assumes "0 \<le> mX1" "mX1 \<le> 1" "0 \<le> mX2" "mX2 \<le> 1" "0 \<le> s" "s < t" "t \<le> 1"
  shows "calcBezier s mX1 mX2 < calcBezier t mX1 mX2"
proof -
  have "(t - s) * ((t - s) * (t - s)) \<le> calcBezier t mX1 mX2 - calcBezier s mX1 mX2"
    using assms by (intro calcBezier_gap) simp_all
  moreover have "0 < (t - s) * ((t - s) * (t - s))" using assms(6) by simp
  ultimately show ?thesis by linarith
qed

lemma calcBezier_0: "calcBezier 0 aA1 aA2 = 0"
  by (simp add: calcBezier_def)

lemma calcBezier_1: "calcBezier 1 aA1 aA2 = 1"
  by (simp add: curve_defs)

lemma calcBezier_range:
  assumes "0 \<le> mX1" "mX1 \<le> 1" "0 \<le> mX2" "mX2 \<le> 1" "0 \<le> t" "t \<le> 1"
  shows "0 \<le> calcBezier t mX1 mX2 \<and> calcBezier t mX1 mX2 \<le> 1"
proof -
  have "0 \<le> calcBezier t mX1 mX2"
  proof (cases "t = 0")
    case True
    then show ?thesis by (simp add: calcBezier_0)
  next
    case False
    with assms have "calcBezier 0 mX1 mX2 < calcBezier t mX1 mX2"
      by (intro calcBezier_strict_mono) simp_all
    then show ?thesis by (simp add: calcBezier_0)
  qed
  moreover have "calcBezier t mX1 mX2 \<le> 1"
  proof (cases "t = 1")
    case True
    then show ?thesis by (simp add: calcBezier_1)
  next
    case False
    with assms have "calcBezier t mX1 mX2 < calcBezier 1 mX1 mX2"
      by (intro calcBezier_strict_mono) simp_all
    then show ?thesis by (simp add: calcBezier_1)
  qed
  ultimately show ?thesis by simp
qed

subsection \<open>Rounding to single precision\<close>

lemma f32_exponent_from_eq:
  "e0 \<le> e \<Longrightarrow> e - e0 \<le> int n \<Longrightarrow> 2 powi e \<le> x \<Longrightarrow> x < 2 powi (e + 1) \<Longrightarrow>
     f32_exponent_from n e0 x = e"
proof (induction n arbitrary: e0)
  case 0
  then show ?case by simp
next
  case (Suc n)
  show ?case
  proof (cases "x < 2 powi (e0 + 1)")
    case True
    with Suc.prems(3) have "(2::real) powi e < 2 powi (e0 + 1)" by linarith
    then have "e < e0 + 1"
      using power_int_increasing [of "e0 + 1" e "2::real"] by (cases "e < e0 + 1") auto
    with Suc.prems(1) True show ?thesis by simp
  next
    case False
    with Suc.prems(4) have "(2::real) powi (e0 + 1) < 2 powi (e + 1)" by linarith
    then have "e0 + 1 < e + 1"
      using power_int_increasing [of "e + 1" "e0 + 1" "2::real"] by (cases "e0 + 1 < e + 1") auto
    then have "e0 + 1 \<le> e" "e - (e0 + 1) \<le> int n" using Suc.prems(2) by simp_all
    from Suc.IH [OF this Suc.prems(3,4)] False show ?thesis by simp
  qed
qed

lemma f32_exponent_eq:
  "- 126 \<le> e \<Longrightarrow> e \<le> 127 \<Longrightarrow> 2 powi e \<le> \<bar>x\<bar> \<Longrightarrow> \<bar>x\<bar> < 2 powi (e + 1) \<Longrightarrow>
     f32_exponent x = e"
  unfolding f32_exponent_def by (rule f32_exponent_from_eq) simp_all

lemma f32_exponent_from_le:
  "e0 \<le> e \<Longrightarrow> x < 2 powi (e + 1) \<Longrightarrow> f32_exponent_from n e0 x \<le> e"
proof (induction n arbitrary: e0)
  case 0
  then show ?case by simp
next
  case (Suc n)
  show ?case
  proof (cases "x < 2 powi (e0 + 1)")
    case True
    with Suc.prems show ?thesis by simp
  next
    case False
    with Suc.prems(2) have "(2::real) powi (e0 + 1) < 2 powi (e + 1)" by linarith
    then have "e0 + 1 < e + 1"
      using power_int_increasing [of "e + 1" "e0 + 1" "2::real"] by (cases "e0 + 1 < e + 1") auto
    then have "e0 + 1 \<le> e" by simp
    from Suc.IH [OF this Suc.prems(2)] False show ?thesis by simp
  qed
qed

lemma f32_exponent_le_0: "\<bar>x\<bar> \<le> 1 \<Longrightarrow> f32_exponent x \<le> 0"
  unfolding f32_exponent_def by (rule f32_exponent_from_le) simp_all

lemma round_ties_even_error: "\<bar>of_int (round_ties_even r) - r\<bar> \<le> 1 / 2"
proof -
  define d where "d = r - of_int \<lfloor>r\<rfloor>"
  have d: "0 \<le> d" "d < 1" unfolding d_def by linarith+
  have r: "r = of_int \<lfloor>r\<rfloor> + d" unfolding d_def by simp
  have "of_int (round_ties_even r) - r = (if d < 1 / 2 then - d else 1 - d)
      \<or> of_int (round_ties_even r) - r = - d \<and> d = 1 / 2"
    unfolding round_ties_even_def Let_def d_def [symmetric] using r by auto
  with d show ?thesis by (auto simp: abs_if split: if_splits)
qed

lemma fround_error:
  assumes "\<bar>x\<bar> \<le> 1"
  shows "\<bar>fround x - x\<bar> \<le> 1 / 16777216"
proof -
  let ?u = "(2::real) powi (f32_exponent x - 23)"
  have u0: "0 < ?u" by simp
  have "?u \<le> 2 powi (- 23)"
    using f32_exponent_le_0 [OF assms] by (intro power_int_increasing) simp_all
  then have u: "?u \<le> 1 / 8388608" by simp
  have "fround x - x = (of_int (round_ties_even (x / ?u)) - x / ?u) * ?u"
    using u0 by (simp add: fround_def Let_def field_simps)
  then have "\<bar>fround x - x\<bar> = \<bar>of_int (round_ties_even (x / ?u)) - x / ?u\<bar> * ?u"
    using u0 by (simp add: abs_mult)
  also have "\<dots> \<le> (1 / 2) * ?u"
    using round_ties_even_error [of "x / ?u"] u0 by (intro mult_right_mono) simp_all
  also have "\<dots> \<le> 1 / 16777216" using u by simp
  finally show ?thesis .
qed



lemma fround_example: "fround (117/250) = 7851737/16777216"
proof -
  have "f32_exponent (117/250) = - 2" by (rule f32_exponent_eq) simp_all
  then show ?thesis by (simp add: fround_def round_ties_even_def)
qed


subsection \<open>The sample table\<close>

lemma fill_samples_length:
  "length (fill_samples float32ArraySupported mX1 mX2 i sampleValues) = length sampleValues"
proof (induction float32ArraySupported mX1 mX2 i sampleValues rule: fill_samples.induct)
  case (1 float32ArraySupported mX1 mX2 i sampleValues)
  show ?case
  proof (cases "i < kSplineTableSize")
    case True
    with "1" show ?thesis by (subst fill_samples.simps) simp
  next
    case False
    then show ?thesis by (subst fill_samples.simps) simp
  qed
qed

lemma fill_samples_nth:
  "j < length sampleValues \<Longrightarrow>
     fill_samples float32ArraySupported mX1 mX2 i sampleValues ! j =
       (if i \<le> j \<and> j < kSplineTableSize
        then (if float32ArraySupported
              then fround (calcBezier (real j * kSampleStepSize) mX1 mX2)
              else calcBezier (real j * kSampleStepSize) mX1 mX2)
        else sampleValues ! j)"
proof (induction float32ArraySupported mX1 mX2 i sampleValues rule: fill_samples.induct)
  case (1 float32ArraySupported mX1 mX2 i sampleValues)
  let ?v = "\<lambda>k. if float32ArraySupported
              then fround (calcBezier (real k * kSampleStepSize) mX1 mX2)
              else calcBezier (real k * kSampleStepSize) mX1 mX2"
  show ?case
  proof (cases "i < kSplineTableSize")
    case True
    have "fill_samples float32ArraySupported mX1 mX2 i sampleValues ! j =
          fill_samples float32ArraySupported mX1 mX2 (i + 1) (sampleValues[i := ?v i]) ! j"
      using True by (subst fill_samples.simps) simp
    also have "\<dots> = (if i + 1 \<le> j \<and> j < kSplineTableSize then ?v j
        else (sampleValues[i := ?v i]) ! j)"
      using "1.IH" [OF True] "1.prems" by simp
    also have "\<dots> = (if i \<le> j \<and> j < kSplineTableSize then ?v j else sampleValues ! j)"
      using True "1.prems" by (cases "i = j") auto
    finally show ?thesis .
  next
    case False
    then show ?thesis by (subst fill_samples.simps) simp
  qed
qed

lemma make_samples_length: "length (make_samples float32ArraySupported mX1 mX2) = 11"
  by (simp add: make_samples_def fill_samples_length kSplineTableSize_def)

lemma make_samples_nth:
  "i < 11 \<Longrightarrow> make_samples float32ArraySupported mX1 mX2 ! i =
     (if float32ArraySupported then fround (calcBezier (real i / 10) mX1 mX2)
      else calcBezier (real i / 10) mX1 mX2)"
  using fill_samples_nth [of i "replicate kSplineTableSize 0" float32ArraySupported mX1 mX2 0]
  by (simp add: make_samples_def kSplineTableSize_def kSampleStepSize_def)

lemma make_samples_error:
  assumes "0 \<le> mX1" "mX1 \<le> 1" "0 \<le> mX2" "mX2 \<le> 1" "i < 11"
  shows "\<bar>make_samples float32ArraySupported mX1 mX2 ! i - calcBezier (real i / 10) mX1 mX2\<bar>
    \<le> 1 / 16777216"
proof -
  have "0 \<le> calcBezier (real i / 10) mX1 mX2 \<and> calcBezier (real i / 10) mX1 mX2 \<le> 1"
    using assms by (intro calcBezier_range) simp_all
  then have "\<bar>calcBezier (real i / 10) mX1 mX2\<bar> \<le> 1" by simp
  from fround_error [OF this] assms(5) show ?thesis by (simp add: make_samples_nth)
qed

lemma fround_117_250: "fround (117/250) = 7851737/16777216"
proof -
  have "f32_exponent (117/250) = - 2" by (rule f32_exponent_eq) simp_all
  then show ?thesis by (simp add: fround_def round_ties_even_def)
qed

lemma bezier_example:
  "bezier float32ArraySupported 1 (1/3) 0 (2/3)
     = Inr (BezierEasing 1 (1/3) 0 (2/3) (make_samples float32ArraySupported 1 0))"
  by (simp add: bezier_unfold)

text \<open>
  C4 fails as stated where the platform has \<open>Float32Array\<close>: the entries are then
  rounded to single precision. On the valid curve with \<open>mX1 = 1\<close>, \<open>mX2 = 0\<close> the x
  cubic at \<open>3/10\<close> is \<open>117/250\<close>, and entry 3 of the table is
  \<open>7851737/16777216\<close>.
\<close>

theorem sample_table_counterexample:
  "bezier True 1 (1/3) 0 (2/3)
     = Inr (BezierEasing 1 (1/3) 0 (2/3) (make_samples True 1 0))
   \<and> make_samples True 1 0 ! 3 = 7851737/16777216
   \<and> calcBezier (real 3 / 10) 1 0 = 117/250
   \<and> make_samples True 1 0 ! 3 \<noteq> calcBezier (real 3 / 10) 1 0"
proof -
  have c: "calcBezier (real 3 / 10) 1 0 = 117/250" by (simp add: curve_defs)
  have "make_samples True 1 0 ! 3 = fround (calcBezier (real 3 / 10) 1 0)"
    by (simp add: make_samples_nth)
  then have m: "make_samples True 1 0 ! 3 = 7851737/16777216"
    unfolding c fround_117_250 .
  from bezier_example c m show ?thesis by simp
qed

text \<open>
  C4, amended. For valid arguments that are not the identity curve, \<open>bezier\<close> returns a
  \<open>BezierEasing\<close> closure whose sample table has exactly 11 entries. With
  \<open>t = i / 10\<close>, \<open>A = 1 - 3 mX2 + 3 mX1\<close>, \<open>B = 3 mX2 - 6 mX1\<close>, \<open>C = 3 mX1\<close>, entry
  \<open>i\<close> is the x cubic \<open>((A t + B) t + C) t\<close> itself when the table is an ordinary
  array, and that value rounded to single precision when it is a \<open>Float32Array\<close>; in
  both cases it is within \<open>2 ^ -24\<close> of the cubic. The closure is a value:
  \<open>evaluate\<close> reads the table and returns a number, so no call changes it.
\<close>

theorem sample_table_entries:
  "0 \<le> mX1 \<and> mX1 \<le> 1 \<and> 0 \<le> mX2 \<and> mX2 \<le> 1 \<Longrightarrow> \<not> (mX1 = mY1 \<and> mX2 = mY2) \<Longrightarrow>
     \<exists>sampleValues.
       bezier float32ArraySupported mX1 mY1 mX2 mY2
         = Inr (BezierEasing mX1 mY1 mX2 mY2 sampleValues)
       \<and> length sampleValues = 11
       \<and> (\<forall>i<11. sampleValues ! i =
            (if float32ArraySupported
             then fround ((((1 - 3 * mX2 + 3 * mX1) * (real i / 10) + (3 * mX2 - 6 * mX1))
                    * (real i / 10) + 3 * mX1) * (real i / 10))
             else (((1 - 3 * mX2 + 3 * mX1) * (real i / 10) + (3 * mX2 - 6 * mX1))
                    * (real i / 10) + 3 * mX1) * (real i / 10))
          \<and> \<bar>sampleValues ! i -
              (((1 - 3 * mX2 + 3 * mX1) * (real i / 10) + (3 * mX2 - 6 * mX1))
                    * (real i / 10) + 3 * mX1) * (real i / 10)\<bar> \<le> 1 / 16777216)"
proof -
  assume v: "0 \<le> mX1 \<and> mX1 \<le> 1 \<and> 0 \<le> mX2 \<and> mX2 \<le> 1" and n: "\<not> (mX1 = mY1 \<and> mX2 = mY2)"
  have c: "calcBezier t mX1 mX2
      = (((1 - 3 * mX2 + 3 * mX1) * t + (3 * mX2 - 6 * mX1)) * t + 3 * mX1) * t" for t
    by (simp add: curve_defs)
  have b: "bezier float32ArraySupported mX1 mY1 mX2 mY2
         = Inr (BezierEasing mX1 mY1 mX2 mY2 (make_samples float32ArraySupported mX1 mX2))"
    using v n by (simp add: bezier_unfold)
  have e: "\<forall>i<11. make_samples float32ArraySupported mX1 mX2 ! i =
            (if float32ArraySupported
             then fround ((((1 - 3 * mX2 + 3 * mX1) * (real i / 10) + (3 * mX2 - 6 * mX1))
                    * (real i / 10) + 3 * mX1) * (real i / 10))
             else (((1 - 3 * mX2 + 3 * mX1) * (real i / 10) + (3 * mX2 - 6 * mX1))
                    * (real i / 10) + 3 * mX1) * (real i / 10))
          \<and> \<bar>make_samples float32ArraySupported mX1 mX2 ! i -
              (((1 - 3 * mX2 + 3 * mX1) * (real i / 10) + (3 * mX2 - 6 * mX1))
                    * (real i / 10) + 3 * mX1) * (real i / 10)\<bar> \<le> 1 / 16777216"
  proof (intro allI impI)
    fix i :: nat assume i: "i < 11"
    from v i have "\<bar>make_samples float32ArraySupported mX1 mX2 ! i
        - calcBezier (real i / 10) mX1 mX2\<bar> \<le> 1 / 16777216"
      by (intro make_samples_error) simp_all
    with i show "make_samples float32ArraySupported mX1 mX2 ! i =
            (if float32ArraySupported
             then fround ((((1 - 3 * mX2 + 3 * mX1) * (real i / 10) + (3 * mX2 - 6 * mX1))
                    * (real i / 10) + 3 * mX1) * (real i / 10))
             else (((1 - 3 * mX2 + 3 * mX1) * (real i / 10) + (3 * mX2 - 6 * mX1))
                    * (real i / 10) + 3 * mX1) * (real i / 10))
          \<and> \<bar>make_samples float32ArraySupported mX1 mX2 ! i -
              (((1 - 3 * mX2 + 3 * mX1) * (real i / 10) + (3 * mX2 - 6 * mX1))
                    * (real i / 10) + 3 * mX1) * (real i / 10)\<bar> \<le> 1 / 16777216"
      unfolding c [symmetric] by (simp add: make_samples_nth)
  qed
  from b e show ?thesis by (intro exI [of _ "make_samples float32ArraySupported mX1 mX2"])
      (simp only: make_samples_length simp_thms)
qed

theorem sample_table_entries_witness:
  "\<exists>sampleValues.
     bezier True 1 (1/3) 0 (2/3) = Inr (BezierEasing 1 (1/3) 0 (2/3) sampleValues)
     \<and> length sampleValues = 11 \<and> sampleValues ! 3 = 7851737 / 16777216
     \<and> \<bar>sampleValues ! 3 - 117 / 250\<bar> \<le> 1 / 16777216"
proof -
  have v: "0 \<le> (1::real) \<and> (1::real) \<le> 1 \<and> 0 \<le> (0::real) \<and> (0::real) \<le> 1" by simp
  have n: "\<not> ((1::real) = 1/3 \<and> (0::real) = 2/3)" by simp
  from sample_table_entries [OF v n, of True] obtain sampleValues where
    b: "bezier True 1 (1/3) 0 (2/3) = Inr (BezierEasing 1 (1/3) 0 (2/3) sampleValues)"
    and l: "length sampleValues = 11"
    and e: "\<forall>i<11. sampleValues ! i =
            (if True
             then fround ((((1 - 3 * 0 + 3 * 1) * (real i / 10) + (3 * 0 - 6 * 1))
                    * (real i / 10) + 3 * 1) * (real i / 10))
             else (((1 - 3 * 0 + 3 * 1) * (real i / 10) + (3 * 0 - 6 * 1))
                    * (real i / 10) + 3 * 1) * (real i / 10))
          \<and> \<bar>sampleValues ! i -
              (((1 - 3 * 0 + 3 * 1) * (real i / 10) + (3 * 0 - 6 * 1))
                    * (real i / 10) + 3 * 1) * (real i / 10)\<bar> \<le> 1 / 16777216"
    by blast
  have "(3::nat) < 11" by simp
  with e have "sampleValues ! 3 =
            (if True
             then fround ((((1 - 3 * 0 + 3 * 1) * (real 3 / 10) + (3 * 0 - 6 * 1))
                    * (real 3 / 10) + 3 * 1) * (real 3 / 10))
             else (((1 - 3 * 0 + 3 * 1) * (real 3 / 10) + (3 * 0 - 6 * 1))
                    * (real 3 / 10) + 3 * 1) * (real 3 / 10))
          \<and> \<bar>sampleValues ! 3 -
              (((1 - 3 * 0 + 3 * 1) * (real 3 / 10) + (3 * 0 - 6 * 1))
                    * (real 3 / 10) + 3 * 1) * (real 3 / 10)\<bar> \<le> 1 / 16777216"
    by blast
  then have "sampleValues ! 3 = 7851737 / 16777216
      \<and> \<bar>sampleValues ! 3 - 117 / 250\<bar> \<le> 1 / 16777216"
    by (simp add: fround_117_250)
  with b l show ?thesis by blast
qed


subsection \<open>The scan of the sample table\<close>

lemma getTForX_unfold:
  "getTForX sampleValues mX1 mX2 aX =
     (let guessForT = getTForX_guessForT sampleValues aX;
          intervalStart = getTForX_intervalStart sampleValues aX;
          initialSlope = getSlope guessForT mX1 mX2
      in if initialSlope \<ge> NEWTON_MIN_SLOPE
         then newtonRaphsonIterate aX guessForT mX1 mX2
         else if initialSlope = 0 then guessForT
         else binarySubdivide aX intervalStart (intervalStart + kSampleStepSize) mX1 mX2)"
  by (simp add: getTForX_def getTForX_guessForT_def getTForX_intervalStart_def
      getTForX_currentSample_def Let_def split: prod.splits)

lemma scan_samples_ge:
  "currentSample \<le> snd (scan_samples sampleValues aX intervalStart currentSample)"
proof (induction sampleValues aX intervalStart currentSample rule: scan_samples.induct)
  case (1 sampleValues aX intervalStart currentSample)
  show ?case
  proof (cases "currentSample \<noteq> kSplineTableSize - 1
         \<and> currentSample < length sampleValues
         \<and> sampleValues ! currentSample \<le> aX")
    case True
    from "1.IH" [OF True] True show ?thesis
      by (subst scan_samples.simps) simp
  next
    case False
    then show ?thesis by (subst scan_samples.simps) auto
  qed
qed

lemma scan_samples_le:
  "currentSample \<le> 10 \<Longrightarrow>
     snd (scan_samples sampleValues aX intervalStart currentSample) \<le> 10"
proof (induction sampleValues aX intervalStart currentSample rule: scan_samples.induct)
  case (1 sampleValues aX intervalStart currentSample)
  show ?case
  proof (cases "currentSample \<noteq> kSplineTableSize - 1
         \<and> currentSample < length sampleValues
         \<and> sampleValues ! currentSample \<le> aX")
    case True
    then have "currentSample + 1 \<le> 10" using "1.prems" by (simp add: kSplineTableSize_def)
    from "1.IH" [OF True this] True show ?thesis
      by (subst scan_samples.simps) simp
  next
    case False
    then show ?thesis using "1.prems" by (subst scan_samples.simps) auto
  qed
qed

lemma scan_samples_start:
  "fst (scan_samples sampleValues aX intervalStart currentSample) =
     intervalStart
     + real (snd (scan_samples sampleValues aX intervalStart currentSample) - currentSample)
       * kSampleStepSize"
proof (induction sampleValues aX intervalStart currentSample rule: scan_samples.induct)
  case (1 sampleValues aX intervalStart currentSample)
  show ?case
  proof (cases "currentSample \<noteq> kSplineTableSize - 1
         \<and> currentSample < length sampleValues
         \<and> sampleValues ! currentSample \<le> aX")
    case True
    have le: "currentSample + 1 \<le> snd (scan_samples sampleValues aX
        (intervalStart + kSampleStepSize) (currentSample + 1))"
      by (rule scan_samples_ge)
    have eq: "scan_samples sampleValues aX intervalStart currentSample =
          scan_samples sampleValues aX (intervalStart + kSampleStepSize) (currentSample + 1)"
      using True by (subst scan_samples.simps) simp
    show ?thesis
      unfolding eq using "1.IH" [OF True] le
      by (simp add: algebra_simps of_nat_diff)
  next
    case False
    then show ?thesis by (subst (1 2) scan_samples.simps) auto
  qed
qed

lemma currentSample_range: "getTForX_currentSample sampleValues aX \<le> 9"
  using scan_samples_le [of 1 sampleValues aX 0]
  by (simp add: getTForX_currentSample_def)






lemma make_samples_gap:
  assumes v: "0 \<le> mX1" "mX1 \<le> 1" "0 \<le> mX2" "mX2 \<le> 1" and i: "i < 10"
  shows "make_samples float32ArraySupported mX1 mX2 ! i + 999 / 1000000
    \<le> make_samples float32ArraySupported mX1 mX2 ! (i + 1)"
proof -
  let ?s = "real i / 10" and ?t = "real (i + 1) / 10"
  have "(?t - ?s) * ((?t - ?s) * (?t - ?s)) \<le> calcBezier ?t mX1 mX2 - calcBezier ?s mX1 mX2"
    using v i by (intro calcBezier_gap) simp_all
  then have g: "1 / 1000 \<le> calcBezier ?t mX1 mX2 - calcBezier ?s mX1 mX2"
    by (simp add: field_simps)
  have "\<bar>make_samples float32ArraySupported mX1 mX2 ! i - calcBezier ?s mX1 mX2\<bar>
      \<le> 1 / 16777216"
    using v i by (intro make_samples_error) simp_all
  moreover have "\<bar>make_samples float32ArraySupported mX1 mX2 ! (i + 1)
      - calcBezier ?t mX1 mX2\<bar> \<le> 1 / 16777216"
    using v i by (intro make_samples_error) simp_all
  ultimately show ?thesis using g by linarith
qed

lemma make_samples_strict:
  assumes v: "0 \<le> mX1" "mX1 \<le> 1" "0 \<le> mX2" "mX2 \<le> 1" and i: "i < 10"
  shows "make_samples float32ArraySupported mX1 mX2 ! i
    < make_samples float32ArraySupported mX1 mX2 ! (i + 1)"
  using make_samples_gap [OF assms, of float32ArraySupported] by linarith

text \<open>
  C10. For valid \<open>mX1\<close>, \<open>mX2\<close> the x cubic is strictly increasing on \<open>[0, 1]\<close>,
  so the sample table is strictly increasing (also after the rounding of a
  \<open>Float32Array\<close>, which moves an entry by far less than two entries differ); the
  index that the scan of \<open>getTForX\<close> chooses, for any target, has its successor inside
  the table, and the denominator
  \<open>sampleValues[currentSample + 1] - sampleValues[currentSample]\<close> of the initial
  guess is never zero.
\<close>

theorem sample_table_strictly_increasing:
  assumes "0 \<le> mX1 \<and> mX1 \<le> 1 \<and> 0 \<le> mX2 \<and> mX2 \<le> 1"
  shows "(\<forall>s t. 0 \<le> s \<and> s < t \<and> t \<le> 1 \<longrightarrow> calcBezier s mX1 mX2 < calcBezier t mX1 mX2)
    \<and> (\<forall>i<10. make_samples float32ArraySupported mX1 mX2 ! i
          < make_samples float32ArraySupported mX1 mX2 ! (i + 1))
    \<and> (\<forall>aX. getTForX_currentSample (make_samples float32ArraySupported mX1 mX2) aX + 1
            < length (make_samples float32ArraySupported mX1 mX2)
          \<and> make_samples float32ArraySupported mX1 mX2
              ! (getTForX_currentSample (make_samples float32ArraySupported mX1 mX2) aX + 1)
            - make_samples float32ArraySupported mX1 mX2
              ! getTForX_currentSample (make_samples float32ArraySupported mX1 mX2) aX \<noteq> 0)"
proof (intro conjI allI impI)
  fix s t :: real
  assume "0 \<le> s \<and> s < t \<and> t \<le> 1"
  with assms show "calcBezier s mX1 mX2 < calcBezier t mX1 mX2"
    by (intro calcBezier_strict_mono) simp_all
next
  fix i :: nat
  assume "i < 10"
  with assms show "make_samples float32ArraySupported mX1 mX2 ! i
      < make_samples float32ArraySupported mX1 mX2 ! (i + 1)"
    by (intro make_samples_strict) simp_all
next
  fix aX
  show "getTForX_currentSample (make_samples float32ArraySupported mX1 mX2) aX + 1
      < length (make_samples float32ArraySupported mX1 mX2)"
    using currentSample_range [of "make_samples float32ArraySupported mX1 mX2" aX]
    by (simp add: make_samples_length)
next
  fix aX
  let ?sv = "make_samples float32ArraySupported mX1 mX2"
  have "getTForX_currentSample ?sv aX < 10"
    using currentSample_range [of ?sv aX] by simp
  with assms have "?sv ! getTForX_currentSample ?sv aX
      < ?sv ! (getTForX_currentSample ?sv aX + 1)"
    by (intro make_samples_strict) simp_all
  then show "?sv ! (getTForX_currentSample ?sv aX + 1)
      - ?sv ! getTForX_currentSample ?sv aX \<noteq> 0"
    by simp
qed


subsection \<open>Newton-Raphson and the branches of the root finder\<close>

lemma newton_loop_done:
  "\<not> i < NEWTON_ITERATIONS \<Longrightarrow> newtonRaphsonIterate_loop aX t mX1 mX2 i = t"
  by (subst newtonRaphsonIterate_loop.simps) simp

lemma newton_loop_zero:
  "i < NEWTON_ITERATIONS \<Longrightarrow> getSlope t mX1 mX2 = 0 \<Longrightarrow>
     newtonRaphsonIterate_loop aX t mX1 mX2 i = t"
  by (subst newtonRaphsonIterate_loop.simps) simp

lemma newton_loop_step:
  "i < NEWTON_ITERATIONS \<Longrightarrow> getSlope t mX1 mX2 \<noteq> 0 \<Longrightarrow>
     newtonRaphsonIterate_loop aX t mX1 mX2 i =
       newtonRaphsonIterate_loop aX (newton_update aX mX1 mX2 t) mX1 mX2 (i + 1)"
  by (subst newtonRaphsonIterate_loop.simps) (simp add: newton_update_def)

lemma newton_loop_all:
  "i + n = NEWTON_ITERATIONS \<Longrightarrow>
   (\<forall>k<n. getSlope ((newton_update aX mX1 mX2 ^^ k) t) mX1 mX2 \<noteq> 0) \<Longrightarrow>
     newtonRaphsonIterate_loop aX t mX1 mX2 i = (newton_update aX mX1 mX2 ^^ n) t"
proof (induction n arbitrary: i t)
  case 0
  then show ?case by (simp add: newton_loop_done)
next
  case (Suc n)
  from Suc.prems(2) have s0: "getSlope t mX1 mX2 \<noteq> 0" by force
  have rest: "\<forall>k<n. getSlope ((newton_update aX mX1 mX2 ^^ k) (newton_update aX mX1 mX2 t))
      mX1 mX2 \<noteq> 0"
  proof (intro allI impI)
    fix k assume "k < n"
    then have "Suc k < Suc n" by simp
    with Suc.prems(2) have "getSlope ((newton_update aX mX1 mX2 ^^ Suc k) t) mX1 mX2 \<noteq> 0"
      by blast
    then show "getSlope ((newton_update aX mX1 mX2 ^^ k) (newton_update aX mX1 mX2 t))
      mX1 mX2 \<noteq> 0"
      by (simp add: funpow_swap1)
  qed
  from Suc.prems(1) have i: "i < NEWTON_ITERATIONS" and i': "(i + 1) + n = NEWTON_ITERATIONS"
    by simp_all
  show ?case
    using newton_loop_step [OF i s0, of aX] Suc.IH [OF i' rest]
    by (simp add: funpow_swap1)
qed

lemma newton_loop_stop:
  "i + k < NEWTON_ITERATIONS \<Longrightarrow>
   getSlope ((newton_update aX mX1 mX2 ^^ k) t) mX1 mX2 = 0 \<Longrightarrow>
   (\<forall>j<k. getSlope ((newton_update aX mX1 mX2 ^^ j) t) mX1 mX2 \<noteq> 0) \<Longrightarrow>
     newtonRaphsonIterate_loop aX t mX1 mX2 i = (newton_update aX mX1 mX2 ^^ k) t"
proof (induction k arbitrary: i t)
  case 0
  then show ?case by (simp add: newton_loop_zero)
next
  case (Suc k)
  from Suc.prems(3) have s0: "getSlope t mX1 mX2 \<noteq> 0" by force
  have rest: "\<forall>j<k. getSlope ((newton_update aX mX1 mX2 ^^ j) (newton_update aX mX1 mX2 t))
      mX1 mX2 \<noteq> 0"
  proof (intro allI impI)
    fix j assume "j < k"
    then have "Suc j < Suc k" by simp
    with Suc.prems(3) have "getSlope ((newton_update aX mX1 mX2 ^^ Suc j) t) mX1 mX2 \<noteq> 0"
      by blast
    then show "getSlope ((newton_update aX mX1 mX2 ^^ j) (newton_update aX mX1 mX2 t))
      mX1 mX2 \<noteq> 0"
      by (simp add: funpow_swap1)
  qed
  from Suc.prems(1) have i: "i < NEWTON_ITERATIONS" and i': "(i + 1) + k < NEWTON_ITERATIONS"
    by simp_all
  from Suc.prems(2)
  have z: "getSlope ((newton_update aX mX1 mX2 ^^ k) (newton_update aX mX1 mX2 t)) mX1 mX2 = 0"
    by (simp add: funpow_swap1)
  show ?case
    using newton_loop_step [OF i s0, of aX] Suc.IH [OF i' z rest]
    by (simp add: funpow_swap1)
qed

text \<open>
  C5. With the slope taken at the interpolated initial guess: a slope of at least
  0.001 sends \<open>getTForX\<close> to \<open>newtonRaphsonIterate\<close>, a slope of exactly zero
  returns the guess as it is, and any other slope (negative, or positive below 0.001)
  sends it to \<open>binarySubdivide\<close> on \<open>[intervalStart, intervalStart + 1/10]\<close>.
  \<open>newtonRaphsonIterate\<close> performs exactly four updates
  \<open>t - (x(t) - aX) / slope(t)\<close> when no slope it meets is zero, with no test of the
  residual, and returns the current \<open>t\<close> at the first zero slope.
\<close>

theorem root_finder_branches:
  "(NEWTON_MIN_SLOPE \<le> getSlope (getTForX_guessForT sampleValues aX) mX1 mX2 \<longrightarrow>
      getTForX sampleValues mX1 mX2 aX
        = newtonRaphsonIterate aX (getTForX_guessForT sampleValues aX) mX1 mX2)
   \<and> (getSlope (getTForX_guessForT sampleValues aX) mX1 mX2 = 0 \<longrightarrow>
      getTForX sampleValues mX1 mX2 aX = getTForX_guessForT sampleValues aX)
   \<and> (getSlope (getTForX_guessForT sampleValues aX) mX1 mX2 < NEWTON_MIN_SLOPE
       \<and> getSlope (getTForX_guessForT sampleValues aX) mX1 mX2 \<noteq> 0 \<longrightarrow>
      getTForX sampleValues mX1 mX2 aX
        = binarySubdivide aX (getTForX_intervalStart sampleValues aX)
            (getTForX_intervalStart sampleValues aX + kSampleStepSize) mX1 mX2)
   \<and> ((\<forall>k<4. getSlope ((newton_update aX mX1 mX2 ^^ k) t) mX1 mX2 \<noteq> 0) \<longrightarrow>
      newtonRaphsonIterate aX t mX1 mX2 = (newton_update aX mX1 mX2 ^^ 4) t)
   \<and> (\<forall>k<4. getSlope ((newton_update aX mX1 mX2 ^^ k) t) mX1 mX2 = 0
         \<and> (\<forall>j<k. getSlope ((newton_update aX mX1 mX2 ^^ j) t) mX1 mX2 \<noteq> 0) \<longrightarrow>
      newtonRaphsonIterate aX t mX1 mX2 = (newton_update aX mX1 mX2 ^^ k) t)
   \<and> NEWTON_MIN_SLOPE = 1 / 1000 \<and> kSampleStepSize = 1 / 10"
proof (intro conjI impI allI)
  assume "NEWTON_MIN_SLOPE \<le> getSlope (getTForX_guessForT sampleValues aX) mX1 mX2"
  then show "getTForX sampleValues mX1 mX2 aX
        = newtonRaphsonIterate aX (getTForX_guessForT sampleValues aX) mX1 mX2"
    by (simp add: getTForX_unfold Let_def)
next
  assume "getSlope (getTForX_guessForT sampleValues aX) mX1 mX2 = 0"
  then show "getTForX sampleValues mX1 mX2 aX = getTForX_guessForT sampleValues aX"
    by (simp add: getTForX_unfold Let_def NEWTON_MIN_SLOPE_def)
next
  assume "getSlope (getTForX_guessForT sampleValues aX) mX1 mX2 < NEWTON_MIN_SLOPE
       \<and> getSlope (getTForX_guessForT sampleValues aX) mX1 mX2 \<noteq> 0"
  then show "getTForX sampleValues mX1 mX2 aX
        = binarySubdivide aX (getTForX_intervalStart sampleValues aX)
            (getTForX_intervalStart sampleValues aX + kSampleStepSize) mX1 mX2"
    by (simp add: getTForX_unfold Let_def)
next
  assume "\<forall>k<4. getSlope ((newton_update aX mX1 mX2 ^^ k) t) mX1 mX2 \<noteq> 0"
  then show "newtonRaphsonIterate aX t mX1 mX2 = (newton_update aX mX1 mX2 ^^ 4) t"
    using newton_loop_all [of 0 4 aX mX1 mX2 t]
    by (simp add: newtonRaphsonIterate_def NEWTON_ITERATIONS_def)
next
  fix k :: nat
  assume "k < 4"
    and "getSlope ((newton_update aX mX1 mX2 ^^ k) t) mX1 mX2 = 0
         \<and> (\<forall>j<k. getSlope ((newton_update aX mX1 mX2 ^^ j) t) mX1 mX2 \<noteq> 0)"
  then show "newtonRaphsonIterate aX t mX1 mX2 = (newton_update aX mX1 mX2 ^^ k) t"
    using newton_loop_stop [of 0 k aX mX1 mX2 t]
    by (simp add: newtonRaphsonIterate_def NEWTON_ITERATIONS_def)
next
  show "NEWTON_MIN_SLOPE = 1 / 1000" by (simp add: NEWTON_MIN_SLOPE_def)
next
  show "kSampleStepSize = 1 / 10" by (simp add: consts_defs)
qed


subsection \<open>Bisection\<close>

lemma trace_unfold:
  "binarySubdivide_trace aX aA aB mX1 mX2 i =
     (aA, aB, aA + (aB - aA) / 2) #
       (if \<bar>calcBezier (aA + (aB - aA) / 2) mX1 mX2 - aX\<bar> > SUBDIVISION_PRECISION
            \<and> i + 1 < SUBDIVISION_MAX_ITERATIONS
        then binarySubdivide_trace aX
               (if calcBezier (aA + (aB - aA) / 2) mX1 mX2 - aX > 0 then aA
                else aA + (aB - aA) / 2)
               (if calcBezier (aA + (aB - aA) / 2) mX1 mX2 - aX > 0
                then aA + (aB - aA) / 2 else aB) mX1 mX2 (i + 1)
        else [])"
  by (subst binarySubdivide_trace.simps) (simp add: Let_def)

lemma loop_unfold:
  "binarySubdivide_loop aX aA aB mX1 mX2 i =
       (if \<bar>calcBezier (aA + (aB - aA) / 2) mX1 mX2 - aX\<bar> > SUBDIVISION_PRECISION
            \<and> i + 1 < SUBDIVISION_MAX_ITERATIONS
        then binarySubdivide_loop aX
               (if calcBezier (aA + (aB - aA) / 2) mX1 mX2 - aX > 0 then aA
                else aA + (aB - aA) / 2)
               (if calcBezier (aA + (aB - aA) / 2) mX1 mX2 - aX > 0
                then aA + (aB - aA) / 2 else aB) mX1 mX2 (i + 1)
        else aA + (aB - aA) / 2)"
  by (subst binarySubdivide_loop.simps) (simp add: Let_def)

lemma trace_nonempty: "binarySubdivide_trace aX aA aB mX1 mX2 i \<noteq> []"
  by (subst trace_unfold) simp

lemma trace_cont:
  "\<bar>calcBezier (aA + (aB - aA) / 2) mX1 mX2 - aX\<bar> > SUBDIVISION_PRECISION
     \<and> i + 1 < SUBDIVISION_MAX_ITERATIONS \<Longrightarrow>
   binarySubdivide_trace aX aA aB mX1 mX2 i =
     (aA, aB, aA + (aB - aA) / 2) #
       binarySubdivide_trace aX
         (if calcBezier (aA + (aB - aA) / 2) mX1 mX2 - aX > 0 then aA
          else aA + (aB - aA) / 2)
         (if calcBezier (aA + (aB - aA) / 2) mX1 mX2 - aX > 0
          then aA + (aB - aA) / 2 else aB) mX1 mX2 (i + 1)"
  by (subst trace_unfold) (simp only: if_True simp_thms)

lemma trace_stop:
  "\<not> (\<bar>calcBezier (aA + (aB - aA) / 2) mX1 mX2 - aX\<bar> > SUBDIVISION_PRECISION
     \<and> i + 1 < SUBDIVISION_MAX_ITERATIONS) \<Longrightarrow>
   binarySubdivide_trace aX aA aB mX1 mX2 i = [(aA, aB, aA + (aB - aA) / 2)]"
  by (subst trace_unfold) (simp only: if_False)

lemma trace_length:
  "i < SUBDIVISION_MAX_ITERATIONS \<Longrightarrow>
     length (binarySubdivide_trace aX aA aB mX1 mX2 i) \<le> SUBDIVISION_MAX_ITERATIONS - i"
proof (induction aX aA aB mX1 mX2 i rule: binarySubdivide_trace.induct)
  case (1 aX aA aB mX1 mX2 i)
  let ?t = "aA + (aB - aA) / 2"
  let ?x = "calcBezier ?t mX1 mX2 - aX"
  show ?case
  proof (cases "\<bar>?x\<bar> > SUBDIVISION_PRECISION \<and> i + 1 < SUBDIVISION_MAX_ITERATIONS")
    case True
    then have i: "i + 1 < SUBDIVISION_MAX_ITERATIONS" by simp
    from "1.IH" [OF refl refl True i] i show ?thesis
      unfolding trace_cont [OF True] by simp
  next
    case False
    with "1.prems" show ?thesis unfolding trace_stop [OF False] by simp
  qed
qed

lemma loop_last_trace:
  "binarySubdivide_loop aX aA aB mX1 mX2 i
     = snd (snd (last (binarySubdivide_trace aX aA aB mX1 mX2 i)))"
proof (induction aX aA aB mX1 mX2 i rule: binarySubdivide_trace.induct)
  case (1 aX aA aB mX1 mX2 i)
  let ?t = "aA + (aB - aA) / 2"
  let ?x = "calcBezier ?t mX1 mX2 - aX"
  show ?case
  proof (cases "\<bar>?x\<bar> > SUBDIVISION_PRECISION \<and> i + 1 < SUBDIVISION_MAX_ITERATIONS")
    case True
    from "1.IH" [OF refl refl True] True show ?thesis
      by (subst trace_unfold, subst loop_unfold) (simp add: trace_nonempty Let_def)
  next
    case False
    then show ?thesis by (subst trace_unfold, subst loop_unfold) auto
  qed
qed

lemma trace_midpoints:
  "k < length (binarySubdivide_trace aX aA aB mX1 mX2 i) \<Longrightarrow>
     (case binarySubdivide_trace aX aA aB mX1 mX2 i ! k of
        (a, b, t) \<Rightarrow> t = a + (b - a) / 2)"
proof (induction aX aA aB mX1 mX2 i arbitrary: k rule: binarySubdivide_trace.induct)
  case (1 aX aA aB mX1 mX2 i)
  let ?t = "aA + (aB - aA) / 2"
  let ?x = "calcBezier ?t mX1 mX2 - aX"
  show ?case
  proof (cases k)
    case 0
    then show ?thesis by (subst trace_unfold) simp
  next
    case (Suc k')
    with "1.prems" have c: "\<bar>?x\<bar> > SUBDIVISION_PRECISION \<and> i + 1 < SUBDIVISION_MAX_ITERATIONS"
      by (subst (asm) trace_unfold) (simp split: if_splits)
    from "1.prems" Suc c have "k' < length (binarySubdivide_trace aX
               (if ?x > 0 then aA else ?t) (if ?x > 0 then ?t else aB) mX1 mX2 (i + 1))"
      by (subst (asm) trace_unfold) simp
    from "1.IH" [OF refl refl c this] Suc c show ?thesis
      by (subst trace_unfold) simp
  qed
qed

lemma trace_steps:
  "Suc k < length (binarySubdivide_trace aX aA aB mX1 mX2 i) \<Longrightarrow>
     (case (binarySubdivide_trace aX aA aB mX1 mX2 i ! k,
            binarySubdivide_trace aX aA aB mX1 mX2 i ! Suc k) of
        ((a, b, t), (a', b', t')) \<Rightarrow>
          \<bar>calcBezier t mX1 mX2 - aX\<bar> > SUBDIVISION_PRECISION
          \<and> a' = (if calcBezier t mX1 mX2 - aX > 0 then a else t)
          \<and> b' = (if calcBezier t mX1 mX2 - aX > 0 then t else b))"
proof (induction aX aA aB mX1 mX2 i arbitrary: k rule: binarySubdivide_trace.induct)
  case (1 aX aA aB mX1 mX2 i)
  let ?t = "aA + (aB - aA) / 2"
  let ?x = "calcBezier ?t mX1 mX2 - aX"
  let ?rest = "binarySubdivide_trace aX
               (if ?x > 0 then aA else ?t) (if ?x > 0 then ?t else aB) mX1 mX2 (i + 1)"
  from "1.prems" have c: "\<bar>?x\<bar> > SUBDIVISION_PRECISION \<and> i + 1 < SUBDIVISION_MAX_ITERATIONS"
    by (subst (asm) trace_unfold) (simp split: if_splits)
  then have tr: "binarySubdivide_trace aX aA aB mX1 mX2 i = (aA, aB, ?t) # ?rest"
    by (subst trace_unfold) simp
  show ?case
  proof (cases k)
    case 0
    have "?rest ! 0 = (if ?x > 0 then aA else ?t, if ?x > 0 then ?t else aB,
        (if ?x > 0 then aA else ?t)
          + ((if ?x > 0 then ?t else aB) - (if ?x > 0 then aA else ?t)) / 2)"
      by (subst trace_unfold) simp
    with 0 c show ?thesis unfolding tr by (simp split: if_splits)
  next
    case (Suc k')
    with "1.prems" have "Suc k' < length ?rest" unfolding tr by simp
    from "1.IH" [OF refl refl c this] Suc show ?thesis unfolding tr by simp
  qed
qed

lemma trace_early_exit:
  "i < SUBDIVISION_MAX_ITERATIONS \<Longrightarrow>
   length (binarySubdivide_trace aX aA aB mX1 mX2 i) < SUBDIVISION_MAX_ITERATIONS - i \<Longrightarrow>
     \<bar>calcBezier (snd (snd (last (binarySubdivide_trace aX aA aB mX1 mX2 i)))) mX1 mX2 - aX\<bar>
       \<le> SUBDIVISION_PRECISION"
proof (induction aX aA aB mX1 mX2 i rule: binarySubdivide_trace.induct)
  case (1 aX aA aB mX1 mX2 i)
  let ?t = "aA + (aB - aA) / 2"
  let ?x = "calcBezier ?t mX1 mX2 - aX"
  let ?rest = "binarySubdivide_trace aX
               (if ?x > 0 then aA else ?t) (if ?x > 0 then ?t else aB) mX1 mX2 (i + 1)"
  show ?case
  proof (cases "\<bar>?x\<bar> > SUBDIVISION_PRECISION \<and> i + 1 < SUBDIVISION_MAX_ITERATIONS")
    case True
    then have tr: "binarySubdivide_trace aX aA aB mX1 mX2 i = (aA, aB, ?t) # ?rest"
      by (rule trace_cont)
    from True have i: "i + 1 < SUBDIVISION_MAX_ITERATIONS" by simp
    from "1.prems"(2) have l: "length ?rest < SUBDIVISION_MAX_ITERATIONS - (i + 1)"
      unfolding tr by simp
    from "1.IH" [OF refl refl True i l] show ?thesis
      unfolding tr by (simp add: trace_nonempty)
  next
    case False
    then have tr: "binarySubdivide_trace aX aA aB mX1 mX2 i = [(aA, aB, ?t)]"
      by (rule trace_stop)
    from "1.prems"(2) have "1 < SUBDIVISION_MAX_ITERATIONS - i" unfolding tr by simp
    then have "i + 1 < SUBDIVISION_MAX_ITERATIONS" by simp
    with False have "\<bar>?x\<bar> \<le> SUBDIVISION_PRECISION" by simp
    then show ?thesis unfolding tr by simp
  qed
qed

lemma trace_brackets:
  "calcBezier aA mX1 mX2 - aX \<le> 0 \<Longrightarrow> 0 < calcBezier aB mX1 mX2 - aX \<Longrightarrow>
   k < length (binarySubdivide_trace aX aA aB mX1 mX2 i) \<Longrightarrow>
     (case binarySubdivide_trace aX aA aB mX1 mX2 i ! k of
        (a, b, t) \<Rightarrow> calcBezier a mX1 mX2 - aX \<le> 0 \<and> 0 < calcBezier b mX1 mX2 - aX)"
proof (induction aX aA aB mX1 mX2 i arbitrary: k rule: binarySubdivide_trace.induct)
  case (1 aX aA aB mX1 mX2 i)
  let ?t = "aA + (aB - aA) / 2"
  let ?x = "calcBezier ?t mX1 mX2 - aX"
  let ?rest = "binarySubdivide_trace aX
               (if ?x > 0 then aA else ?t) (if ?x > 0 then ?t else aB) mX1 mX2 (i + 1)"
  show ?case
  proof (cases k)
    case 0
    with "1.prems" show ?thesis by (subst trace_unfold) simp
  next
    case (Suc k')
    with "1.prems" have c: "\<bar>?x\<bar> > SUBDIVISION_PRECISION \<and> i + 1 < SUBDIVISION_MAX_ITERATIONS"
      by (subst (asm) trace_unfold) (simp split: if_splits)
    then have tr: "binarySubdivide_trace aX aA aB mX1 mX2 i = (aA, aB, ?t) # ?rest"
      by (subst trace_unfold) simp
    from "1.prems"(3) Suc have l: "k' < length ?rest" unfolding tr by simp
    have a: "calcBezier (if ?x > 0 then aA else ?t) mX1 mX2 - aX \<le> 0"
      using "1.prems"(1) by simp
    have b: "0 < calcBezier (if ?x > 0 then ?t else aB) mX1 mX2 - aX"
      using "1.prems"(2) by simp
    from "1.IH" [OF refl refl c a b l] Suc show ?thesis unfolding tr by simp
  qed
qed

text \<open>
  C6. \<open>binarySubdivide\<close> runs its loop body at least once and at most 10 times and
  returns the last midpoint. Each body computes the midpoint of the current interval;
  the loop goes on only while the residual exceeds \<open>1e-7\<close> in absolute value, replacing
  the upper end by the midpoint when the residual is positive and the lower end
  otherwise; when it stops before the tenth execution the residual of the result is at
  most \<open>1e-7\<close>; and an interval that brackets the target keeps bracketing it. The scan
  of the sample table ends with \<open>currentSample\<close> between 1 and 10, having added one
  step to \<open>intervalStart\<close> per iteration, so it makes at most 9 iterations.
\<close>

theorem bisection_bounded:
  "(let tr = binarySubdivide_trace aX aA aB mX1 mX2 0 in
      tr \<noteq> [] \<and> length tr \<le> 10
      \<and> binarySubdivide aX aA aB mX1 mX2 = snd (snd (last tr))
      \<and> (\<forall>k<length tr. case tr ! k of (a, b, t) \<Rightarrow> t = a + (b - a) / 2)
      \<and> (\<forall>k. Suc k < length tr \<longrightarrow>
           (case (tr ! k, tr ! Suc k) of
              ((a, b, t), (a', b', t')) \<Rightarrow>
                \<bar>calcBezier t mX1 mX2 - aX\<bar> > 1 / 10000000
                \<and> a' = (if calcBezier t mX1 mX2 - aX > 0 then a else t)
                \<and> b' = (if calcBezier t mX1 mX2 - aX > 0 then t else b)))
      \<and> (length tr < 10 \<longrightarrow>
           \<bar>calcBezier (binarySubdivide aX aA aB mX1 mX2) mX1 mX2 - aX\<bar> \<le> 1 / 10000000)
      \<and> (calcBezier aA mX1 mX2 - aX \<le> 0 \<and> 0 < calcBezier aB mX1 mX2 - aX \<longrightarrow>
           (\<forall>k<length tr. case tr ! k of
              (a, b, t) \<Rightarrow> calcBezier a mX1 mX2 - aX \<le> 0 \<and> 0 < calcBezier b mX1 mX2 - aX)))
   \<and> 1 \<le> snd (scan_samples sampleValues x 0 1)
   \<and> snd (scan_samples sampleValues x 0 1) \<le> 10
   \<and> fst (scan_samples sampleValues x 0 1)
        = real (snd (scan_samples sampleValues x 0 1) - 1) * kSampleStepSize"
proof -
  let ?tr = "binarySubdivide_trace aX aA aB mX1 mX2 0"
  have r: "binarySubdivide aX aA aB mX1 mX2 = snd (snd (last ?tr))"
    by (simp add: binarySubdivide_def loop_last_trace)
  have 1: "?tr \<noteq> []" by (rule trace_nonempty)
  have 2: "length ?tr \<le> 10"
    using trace_length [of 0 aX aA aB mX1 mX2] by (simp add: SUBDIVISION_MAX_ITERATIONS_def)
  have 3: "\<forall>k<length ?tr. case ?tr ! k of (a, b, t) \<Rightarrow> t = a + (b - a) / 2"
    by (intro allI impI) (rule trace_midpoints)
  have 4: "\<forall>k. Suc k < length ?tr \<longrightarrow>
           (case (?tr ! k, ?tr ! Suc k) of
              ((a, b, t), (a', b', t')) \<Rightarrow>
                \<bar>calcBezier t mX1 mX2 - aX\<bar> > 1 / 10000000
                \<and> a' = (if calcBezier t mX1 mX2 - aX > 0 then a else t)
                \<and> b' = (if calcBezier t mX1 mX2 - aX > 0 then t else b))"
    using trace_steps [of _ aX aA aB mX1 mX2 0] by (simp add: SUBDIVISION_PRECISION_def)
  have 5: "length ?tr < 10 \<longrightarrow>
           \<bar>calcBezier (binarySubdivide aX aA aB mX1 mX2) mX1 mX2 - aX\<bar> \<le> 1 / 10000000"
    using trace_early_exit [of 0 aX aA aB mX1 mX2] unfolding r
    by (simp add: SUBDIVISION_MAX_ITERATIONS_def SUBDIVISION_PRECISION_def)
  have 6: "calcBezier aA mX1 mX2 - aX \<le> 0 \<and> 0 < calcBezier aB mX1 mX2 - aX \<longrightarrow>
           (\<forall>k<length ?tr. case ?tr ! k of
              (a, b, t) \<Rightarrow> calcBezier a mX1 mX2 - aX \<le> 0 \<and> 0 < calcBezier b mX1 mX2 - aX)"
  proof (intro allI impI)
    fix k
    assume "calcBezier aA mX1 mX2 - aX \<le> 0 \<and> 0 < calcBezier aB mX1 mX2 - aX"
      and "k < length ?tr"
    then show "case ?tr ! k of
              (a, b, t) \<Rightarrow> calcBezier a mX1 mX2 - aX \<le> 0 \<and> 0 < calcBezier b mX1 mX2 - aX"
      using trace_brackets [of aA mX1 mX2 aX aB k 0] by simp
  qed
  have 7: "1 \<le> snd (scan_samples sampleValues x 0 1)"
    using scan_samples_ge [of 1 sampleValues x 0] by simp
  have 8: "snd (scan_samples sampleValues x 0 1) \<le> 10"
    using scan_samples_le [of 1 sampleValues x 0] by simp
  have 9: "fst (scan_samples sampleValues x 0 1)
        = real (snd (scan_samples sampleValues x 0 1) - 1) * kSampleStepSize"
    using scan_samples_start [of sampleValues x 0 1] by simp
  show ?thesis unfolding Let_def by (intro conjI 1 2 r 3 4 5 6 7 8 9)
qed


subsection \<open>The curve with control points 1 and 0 on the x axis\<close>

lemma trace_example:
  "binarySubdivide_trace (5000001/10000000) (1/2) (3/5) 1 0 0 =
     [(1/2, 3/5, 11/20), (1/2, 11/20, 21/40), (1/2, 21/40, 41/80), (1/2, 41/80, 81/160),
      (1/2, 81/160, 161/320)]"
  by code_simp

theorem bisection_bounded_witness:
  "binarySubdivide (5000001/10000000) (1/2) (3/5) 1 0 = 161/320
   \<and> \<bar>calcBezier (binarySubdivide (5000001/10000000) (1/2) (3/5) 1 0) 1 0
        - 5000001/10000000\<bar> \<le> 1 / 10000000
   \<and> \<bar>calcBezier (11/20) 1 0 - 5000001/10000000\<bar> > 1 / 10000000
   \<and> calcBezier (1/2) 1 0 - 5000001/10000000 \<le> 0
   \<and> 0 < calcBezier (81/160) 1 0 - 5000001/10000000
   \<and> snd (scan_samples (make_samples False 1 0) (5000001/10000000) 0 1) \<le> 10"
proof -
  note t = bisection_bounded [of "5000001/10000000" "1/2" "3/5" 1 0 "make_samples False 1 0"
      "5000001/10000000", unfolded Let_def trace_example]
  note inner = t [THEN conjunct1]
  note result = inner [THEN conjunct2, THEN conjunct2, THEN conjunct1]
  note steps = inner [THEN conjunct2, THEN conjunct2, THEN conjunct2, THEN conjunct2,
      THEN conjunct1, rule_format, of 0]
  note early = inner [THEN conjunct2, THEN conjunct2, THEN conjunct2, THEN conjunct2,
      THEN conjunct2, THEN conjunct1, rule_format]
  note bracket = inner [THEN conjunct2, THEN conjunct2, THEN conjunct2, THEN conjunct2,
      THEN conjunct2, THEN conjunct2, rule_format, of 4]
  note scan = t [THEN conjunct2, THEN conjunct2, THEN conjunct1]
  have b: "calcBezier (1/2) 1 0 - 5000001/10000000 \<le> 0
      \<and> 0 < calcBezier (3/5) 1 0 - 5000001/10000000"
    by (simp add: curve_defs)
  from result have 1: "binarySubdivide (5000001/10000000) (1/2) (3/5) 1 0 = 161/320" by simp
  from early have 2: "\<bar>calcBezier (binarySubdivide (5000001/10000000) (1/2) (3/5) 1 0) 1 0
        - 5000001/10000000\<bar> \<le> 1 / 10000000" by simp
  from steps have 3: "\<bar>calcBezier (11/20) 1 0 - 5000001/10000000\<bar> > 1 / 10000000" by simp
  from bracket [OF b] have 4: "calcBezier (1/2) 1 0 - 5000001/10000000 \<le> 0
          \<and> 0 < calcBezier (81/160) 1 0 - 5000001/10000000" by simp
  from 1 2 3 4 scan show ?thesis by simp
qed

lemma below_11:
  "i < (11::nat) \<Longrightarrow> i = 0 \<or> i = 1 \<or> i = 2 \<or> i = 3 \<or> i = 4 \<or> i = 5 \<or> i = 6 \<or> i = 7
     \<or> i = 8 \<or> i = 9 \<or> i = 10"
  by arith

lemma samples_10_exact:
  "make_samples False 1 0
     = [0, 61/250, 49/125, 117/250, 62/125, 1/2, 63/125, 133/250, 76/125, 189/250, 1]"
proof (rule nth_equalityI)
  show "length (make_samples False 1 0) = length [0, 61/250, 49/125, 117/250, 62/125, 1/2,
      63/125, 133/250, 76/125, 189/250, 1::real]"
    by (simp add: make_samples_length)
next
  fix i assume "i < length (make_samples False 1 0)"
  then have "i < 11" by (simp add: make_samples_length)
  then have "i = 0 \<or> i = 1 \<or> i = 2 \<or> i = 3 \<or> i = 4 \<or> i = 5 \<or> i = 6 \<or> i = 7
     \<or> i = 8 \<or> i = 9 \<or> i = 10" by (rule below_11)
  then show "make_samples False 1 0 ! i = [0, 61/250, 49/125, 117/250, 62/125, 1/2,
      63/125, 133/250, 76/125, 189/250, 1::real] ! i"
    by (elim disjE) (simp_all add: make_samples_nth curve_defs)
qed

lemma scan_10_a:
  "scan_samples [0, 61/250, 49/125, 117/250, 62/125, 1/2, 63/125, 133/250, 76/125, 189/250, 1]
     (1251/2500) 0 1 = (1/2, 6)"
  by code_simp

lemma scan_10_b:
  "scan_samples [0, 61/250, 49/125, 117/250, 62/125, 1/2, 63/125, 133/250, 76/125, 189/250, 1]
     (1/2) 0 1 = (1/2, 6)"
  by code_simp

lemma scan_10_c:
  "scan_samples [0, 61/250, 49/125, 117/250, 62/125, 1/2, 63/125, 133/250, 76/125, 189/250, 1]
     (5000001/10000000) 0 1 = (1/2, 6)"
  by code_simp

lemma scan_10_d:
  "scan_samples [0, 61/250, 49/125, 117/250, 62/125, 1/2, 63/125, 133/250, 76/125, 189/250, 1]
     (63/125) 0 1 = (3/5, 7)"
  by code_simp

lemma bracket_newton_example:
  "getTForX_intervalStart (make_samples False 1 0) (1251/2500) = 1/2"
  "getTForX_currentSample (make_samples False 1 0) (1251/2500) = 5"
  unfolding getTForX_intervalStart_def getTForX_currentSample_def samples_10_exact scan_10_a
  by simp_all

lemma bracket_zero_example:
  "getTForX_intervalStart (make_samples False 1 0) (1/2) = 1/2"
  "getTForX_currentSample (make_samples False 1 0) (1/2) = 5"
  unfolding getTForX_intervalStart_def getTForX_currentSample_def samples_10_exact scan_10_b
  by simp_all

lemma bracket_bisect_example:
  "getTForX_intervalStart (make_samples False 1 0) (5000001/10000000) = 1/2"
  "getTForX_currentSample (make_samples False 1 0) (5000001/10000000) = 5"
  unfolding getTForX_intervalStart_def getTForX_currentSample_def samples_10_exact scan_10_c
  by simp_all

lemma bracket_exact_example:
  "getTForX_intervalStart (make_samples False 1 0) (63/125) = 3/5"
  "getTForX_currentSample (make_samples False 1 0) (63/125) = 6"
  unfolding getTForX_intervalStart_def getTForX_currentSample_def samples_10_exact scan_10_d
  by simp_all

lemma guess_newton_example: "getTForX_guessForT (make_samples False 1 0) (1251/2500) = 51/100"
  unfolding getTForX_guessForT_def bracket_newton_example Let_def
  by (simp add: samples_10_exact kSampleStepSize_def kSplineTableSize_def)

lemma guess_zero_example: "getTForX_guessForT (make_samples False 1 0) (1/2) = 1/2"
  unfolding getTForX_guessForT_def bracket_zero_example Let_def
  by (simp add: samples_10_exact kSampleStepSize_def kSplineTableSize_def)

lemma guess_bisect_example:
  "getTForX_guessForT (make_samples False 1 0) (5000001/10000000) = 200001/400000"
  unfolding getTForX_guessForT_def bracket_bisect_example Let_def
  by (simp add: samples_10_exact kSampleStepSize_def kSplineTableSize_def)

lemma guess_exact_example: "getTForX_guessForT (make_samples False 1 0) (63/125) = 3/5"
  unfolding getTForX_guessForT_def bracket_exact_example Let_def
  by (simp add: samples_10_exact kSampleStepSize_def kSplineTableSize_def)

lemma newton_update_example:
  "newton_update (1251/2500) 1 0 (51/100) = 21/25"
  "newton_update (1251/2500) 1 0 (21/25) = 21009/28900"
  "newton_update (1251/2500) 1 0 (21009/28900) = 202641189834/310822975225"
  "newton_update (1251/2500) 1 0 (202641189834/310822975225)
     = 6686462576653956680285104894278201 / 11093370314909754909115269009324100"
  by (simp_all add: newton_update_def curve_defs)

lemma funpow_upto_4:
  "(f ^^ 0) x = x" "(f ^^ 1) x = f x" "(f ^^ 2) x = f (f x)" "(f ^^ 3) x = f (f (f x))"
  "(f ^^ 4) x = f (f (f (f x)))"
  by (simp_all add: eval_nat_numeral)

lemma below_4: "k < (4::nat) \<Longrightarrow> k = 0 \<or> k = 1 \<or> k = 2 \<or> k = 3"
  by arith

lemma newton_slope_initial_example: "getSlope (51/100) 1 0 = 3/2500"
  by (simp add: curve_defs)

lemma newton_slopes_example:
  "getSlope (51/100) 1 0 \<noteq> 0"
  "getSlope (21/25) 1 0 \<noteq> 0"
  "getSlope (21009/28900) 1 0 \<noteq> 0"
  "getSlope (202641189834/310822975225) 1 0 \<noteq> 0"
  by (simp_all add: curve_defs)

lemma newton_example:
  "newtonRaphsonIterate (1251/2500) (51/100) 1 0
     = 6686462576653956680285104894278201 / 11093370314909754909115269009324100"
proof -
  have "\<forall>k<4. getSlope ((newton_update (1251/2500) 1 0 ^^ k) (51/100)) 1 0 \<noteq> 0"
  proof (intro allI impI)
    fix k :: nat assume "k < 4"
    then have "k = 0 \<or> k = 1 \<or> k = 2 \<or> k = 3" by (rule below_4)
    then show "getSlope ((newton_update (1251/2500) 1 0 ^^ k) (51/100)) 1 0 \<noteq> 0"
      by (elim disjE)
         (simp_all only: funpow_upto_4 newton_update_example newton_slopes_example
            not_False_eq_True)
  qed
  then have "newtonRaphsonIterate_loop (1251/2500) (51/100) 1 0 0
      = (newton_update (1251/2500) 1 0 ^^ 4) (51/100)"
    by (intro newton_loop_all) (simp_all add: NEWTON_ITERATIONS_def)
  then show ?thesis
    by (simp only: newtonRaphsonIterate_def funpow_upto_4 newton_update_example)
qed

lemma getTForX_newton_example:
  "getTForX (make_samples False 1 0) 1 0 (1251/2500)
     = 6686462576653956680285104894278201 / 11093370314909754909115269009324100"
  unfolding getTForX_unfold Let_def guess_newton_example newton_example
  by (simp add: newton_slope_initial_example NEWTON_MIN_SLOPE_def)

lemma getTForX_zero_example: "getTForX (make_samples False 1 0) 1 0 (1/2) = 1/2"
  unfolding getTForX_unfold Let_def guess_zero_example
  by (simp add: curve_defs NEWTON_MIN_SLOPE_def)

lemma getTForX_exact_example: "getTForX (make_samples False 1 0) 1 0 (63/125) = 3/5"
proof -
  have u: "newton_update (63/125) 1 0 (3/5) = 3/5"
    by (simp add: newton_update_def curve_defs)
  have s: "getSlope (3/5) 1 0 = 3/25" by (simp add: curve_defs)
  then have s0: "getSlope (3/5) 1 0 \<noteq> 0" by simp
  have "\<forall>k<4. getSlope ((newton_update (63/125) 1 0 ^^ k) (3/5)) 1 0 \<noteq> 0"
  proof (intro allI impI)
    fix k :: nat assume "k < 4"
    then have "k = 0 \<or> k = 1 \<or> k = 2 \<or> k = 3" by (rule below_4)
    then show "getSlope ((newton_update (63/125) 1 0 ^^ k) (3/5)) 1 0 \<noteq> 0"
      by (elim disjE) (simp_all only: funpow_upto_4 u s0 not_False_eq_True)
  qed
  then have "newtonRaphsonIterate_loop (63/125) (3/5) 1 0 0
      = (newton_update (63/125) 1 0 ^^ 4) (3/5)"
    by (intro newton_loop_all) (simp_all add: NEWTON_ITERATIONS_def)
  then have n: "newtonRaphsonIterate (63/125) (3/5) 1 0 = 3/5"
    by (simp only: newtonRaphsonIterate_def funpow_upto_4 u)
  show ?thesis
    unfolding getTForX_unfold Let_def guess_exact_example n
    by (simp add: s NEWTON_MIN_SLOPE_def)
qed


theorem root_finder_branches_witness:
  "getTForX (make_samples False 1 0) 1 0 (1251/2500)
     = 6686462576653956680285104894278201 / 11093370314909754909115269009324100
   \<and> getTForX (make_samples False 1 0) 1 0 (1/2) = 1/2
   \<and> getTForX (make_samples False 1 0) 1 0 (5000001/10000000)
       = binarySubdivide (5000001/10000000) (1/2) (1/2 + 1/10) 1 0
   \<and> newtonRaphsonIterate (1/2) (1/2) 1 0 = 1/2"
proof -
  note n = root_finder_branches [of "make_samples False 1 0" "1251/2500" 1 0 "51/100"]
  note z = root_finder_branches [of "make_samples False 1 0" "1/2" 1 0 "1/2"]
  note b = root_finder_branches [of "make_samples False 1 0" "5000001/10000000" 1 0 0]
  have nz: "\<forall>k<4. getSlope ((newton_update (1251/2500) 1 0 ^^ k) (51/100)) 1 0 \<noteq> 0"
  proof (intro allI impI)
    fix k :: nat assume "k < 4"
    then have "k = 0 \<or> k = 1 \<or> k = 2 \<or> k = 3" by (rule below_4)
    then show "getSlope ((newton_update (1251/2500) 1 0 ^^ k) (51/100)) 1 0 \<noteq> 0"
      by (elim disjE)
         (simp_all only: funpow_upto_4 newton_update_example newton_slopes_example
            not_False_eq_True)
  qed
  from n [THEN conjunct1] have 1: "getTForX (make_samples False 1 0) 1 0 (1251/2500)
      = newtonRaphsonIterate (1251/2500) (51/100) 1 0"
    by (simp add: guess_newton_example newton_slope_initial_example NEWTON_MIN_SLOPE_def)
  from n [THEN conjunct2, THEN conjunct2, THEN conjunct2, THEN conjunct1, THEN mp, OF nz]
  have 2: "newtonRaphsonIterate (1251/2500) (51/100) 1 0
     = 6686462576653956680285104894278201 / 11093370314909754909115269009324100"
    by (simp only: funpow_upto_4 newton_update_example)
  from z [THEN conjunct2, THEN conjunct1]
  have 3: "getTForX (make_samples False 1 0) 1 0 (1/2) = 1/2"
    by (simp add: guess_zero_example curve_defs)
  from b [THEN conjunct2, THEN conjunct2, THEN conjunct1]
  have 4: "getTForX (make_samples False 1 0) 1 0 (5000001/10000000)
       = binarySubdivide (5000001/10000000) (1/2) (1/2 + 1/10) 1 0"
    by (simp add: guess_bisect_example bracket_bisect_example curve_defs consts_defs)
  from z [THEN conjunct2, THEN conjunct2, THEN conjunct2, THEN conjunct2, THEN conjunct1,
      rule_format, of 0]
  have 5: "newtonRaphsonIterate (1/2) (1/2) 1 0 = 1/2"
    by (simp add: curve_defs)
  from 1 2 3 4 5 show ?thesis by (simp only: simp_thms)
qed

theorem sample_table_strictly_increasing_witness:
  "make_samples False 1 0 ! 5 < make_samples False 1 0 ! (5 + 1)
   \<and> calcBezier (1/2) 1 0 < calcBezier (3/5) 1 0
   \<and> make_samples False 1 0 ! (getTForX_currentSample (make_samples False 1 0) (1251/2500) + 1)
       - make_samples False 1 0 ! getTForX_currentSample (make_samples False 1 0) (1251/2500) \<noteq> 0"
proof -
  have v: "0 \<le> (1::real) \<and> (1::real) \<le> 1 \<and> 0 \<le> (0::real) \<and> (0::real) \<le> 1" by simp
  note t = sample_table_strictly_increasing [OF v, of False]
  from t [THEN conjunct1, rule_format, of "1/2" "3/5"]
  have 1: "calcBezier (1/2) 1 0 < calcBezier (3/5) 1 0" by simp
  from t [THEN conjunct2, THEN conjunct1, rule_format, of 5]
  have 2: "make_samples False 1 0 ! 5 < make_samples False 1 0 ! (5 + 1)" by simp
  from t [THEN conjunct2, THEN conjunct2, rule_format, of "1251/2500"]
  have 3: "make_samples False 1 0 ! (getTForX_currentSample (make_samples False 1 0) (1251/2500) + 1)
       - make_samples False 1 0 ! getTForX_currentSample (make_samples False 1 0) (1251/2500) \<noteq> 0"
    by simp
  from 1 2 3 show ?thesis by (simp only: simp_thms)
qed

subsection \<open>Four Newton-Raphson updates where the x cubic is flat\<close>



























subsection \<open>Bounds for one Newton-Raphson update\<close>









subsection \<open>The initial guess and the accuracy of four updates\<close>










subsection \<open>Monotonicity of the root finder\<close>





















end
